theory Spec2Isabelle
  imports Main
begin

section \<open>File system utilities of \<^verbatim>\<open>vs/base/node/pfs.ts\<close>\<close>

text \<open>
  The module is a layer over the primitives of node's \<^verbatim>\<open>fs\<close> library and over a few
  helpers of other modules (\<^verbatim>\<open>join\<close>, \<^verbatim>\<open>tmpdir\<close>, \<^verbatim>\<open>generateUuid\<close>,
  \<^verbatim>\<open>isRootOrDriveLetter\<close>, \<^verbatim>\<open>normalizeNFC\<close>, the platform flags). None of them is
  defined in the module, so the embedding takes them as the fields of a record \<open>host\<close>:
  every function below is the control flow of the source over an arbitrary host. The
  file system is a state of an arbitrary type \<open>'w\<close>; a primitive that changes it returns
  the new state, a primitive that only reads it returns a value. An asynchronous function
  is modelled by what has happened when its promise settles.
\<close>

subsection \<open>Data\<close>

type_synonym path = string

text \<open>
  A thrown value: an error of the file system carries a \<^verbatim>\<open>code\<close> such as \<^verbatim>\<open>ENOENT\<close>;
  \<^verbatim>\<open>new Error(message)\<close> has none.
\<close>

datatype error = SysError string | PlainError string

fun code :: "error \<Rightarrow> string option" where
  "code (SysError c) = Some c"
| "code (PlainError m) = None"

text \<open>The part of \<^verbatim>\<open>fs.Stats\<close> the module reads.\<close>

record stats =
  isFile :: bool
  isDirectory :: bool
  isSymbolicLink :: bool
  mode :: nat
  atime :: nat

text \<open>
  \<^verbatim>\<open>SymlinkSupport.IStats\<close>. The optional field \<^verbatim>\<open>symbolicLink?: { dangling: boolean }\<close>
  is \<open>None\<close> when absent and \<open>Some d\<close> for \<^verbatim>\<open>{ dangling: d }\<close>.
\<close>

record IStats =
  stat :: stats
  symbolicLink :: "bool option"

text \<open>A directory entry (\<^verbatim>\<open>fs.Dirent\<close>): its name and what kind of entry it is.\<close>

record Dirent =
  name :: string
  isDir :: bool

datatype RimRafMode = UNLINK | MOVE

type_synonym fd = nat

record 'w host =
  isWindows :: bool
  isMacintosh :: bool
  toLowerCase :: "string \<Rightarrow> string"
  normalizeNFC :: "string \<Rightarrow> string"
  join :: "path \<Rightarrow> string \<Rightarrow> path"
  tmpdir :: path
  generateUuid :: "'w \<Rightarrow> string \<times> 'w"
  isRootOrDriveLetter :: "path \<Rightarrow> bool"
  fs_rename :: "path \<Rightarrow> path \<Rightarrow> 'w \<Rightarrow> error option \<times> 'w"
  fs_rmdir :: "path \<Rightarrow> 'w \<Rightarrow> error option \<times> 'w"
  fs_readdir :: "path \<Rightarrow> 'w \<Rightarrow> error + string list"
  fs_readdirTypes :: "path \<Rightarrow> 'w \<Rightarrow> error + Dirent list"
  fs_lstat :: "path \<Rightarrow> 'w \<Rightarrow> error + stats"
  fs_stat :: "path \<Rightarrow> 'w \<Rightarrow> error + stats"
  fs_readlink :: "path \<Rightarrow> 'w \<Rightarrow> error + path"
  fs_open :: "path \<Rightarrow> string \<Rightarrow> nat \<Rightarrow> 'w \<Rightarrow> (error + fd) \<times> 'w"
  fs_writeFd :: "fd \<Rightarrow> string \<Rightarrow> 'w \<Rightarrow> error option \<times> 'w"
  fs_writePath :: "path \<Rightarrow> string \<Rightarrow> nat \<Rightarrow> string \<Rightarrow> 'w \<Rightarrow> error option \<times> 'w"
  fs_fdatasync :: "fd \<Rightarrow> 'w \<Rightarrow> error option \<times> 'w"
  fs_close :: "fd \<Rightarrow> 'w \<Rightarrow> error option \<times> 'w"
  fs_utimes :: "fd \<Rightarrow> nat \<Rightarrow> 'w \<Rightarrow> error option \<times> 'w"
  fs_mkdir :: "path \<Rightarrow> nat \<Rightarrow> 'w \<Rightarrow> error option \<times> 'w"
  fs_pipe :: "path \<Rightarrow> path \<Rightarrow> nat \<Rightarrow> 'w \<Rightarrow> error option \<times> 'w"
  fs_chmod :: "path \<Rightarrow> nat \<Rightarrow> 'w \<Rightarrow> error option \<times> 'w"

text \<open>
  What a call has done when its promise settles (or when a synchronous function returns
  or throws): \<open>failure\<close> is the error it rejects with (\<open>None\<close> when it resolves),
  \<open>background\<close> lists the temp locations whose recursive deletion was started and not
  awaited, \<open>world\<close> is the file system at that moment.
\<close>

record 'w outcome =
  failure :: "error option"
  background :: "path list"
  world :: "'w"

definition settled :: "error option \<Rightarrow> 'w \<Rightarrow> 'w outcome" where
  "settled e w = \<lparr>failure = e, background = [], world = w\<rparr>"

subsection \<open>rimraf\<close>

definition rimrafUnlink :: "'w host \<Rightarrow> path \<Rightarrow> 'w \<Rightarrow> error option \<times> 'w" where
  "rimrafUnlink h p w = fs_rmdir h p w"

text \<open>
  \<^verbatim>\<open>rimrafMove\<close>. When the rename fails the function returns the promise of
  \<^verbatim>\<open>rimrafUnlink(path)\<close> without awaiting it, so the surrounding \<^verbatim>\<open>try\<close> does not see its
  rejection: the outer \<^verbatim>\<open>catch\<close> would only handle a synchronous throw of the helpers,
  which are total here.
\<close>

definition rimrafMove :: "'w host \<Rightarrow> path \<Rightarrow> 'w \<Rightarrow> 'w outcome" where
  "rimrafMove h p w =
     (let (uuid, w0) = generateUuid h w;
          pathInTemp = join h (tmpdir h) uuid
      in case fs_rename h p pathInTemp w0 of
           (Some e, w1) \<Rightarrow> (let (r, w2) = rimrafUnlink h p w1 in settled r w2)
         | (None, w1) \<Rightarrow> \<lparr>failure = None, background = [pathInTemp], world = w1\<rparr>)"

definition refuse_root :: error where
  "refuse_root = PlainError ''rimraf - will refuse to recursively delete root''"

definition rimraf :: "'w host \<Rightarrow> path \<Rightarrow> RimRafMode \<Rightarrow> 'w \<Rightarrow> 'w outcome" where
  "rimraf h p m w =
     (if isRootOrDriveLetter h p then settled (Some refuse_root) w
      else if m = UNLINK then (let (r, w1) = rimrafUnlink h p w in settled r w1)
      else rimrafMove h p w)"

definition rimrafSync :: "'w host \<Rightarrow> path \<Rightarrow> 'w \<Rightarrow> 'w outcome" where
  "rimrafSync h p w =
     (if isRootOrDriveLetter h p then settled (Some refuse_root) w
      else (let (r, w1) = fs_rmdir h p w in settled r w1))"

subsection \<open>readdir with NFC support\<close>

definition handleDirectoryChildren :: "'w host \<Rightarrow> string list \<Rightarrow> string list" where
  "handleDirectoryChildren h children =
     (if isMacintosh h then map (\<lambda>child. normalizeNFC h child) children else children)"

definition readdir :: "'w host \<Rightarrow> path \<Rightarrow> 'w \<Rightarrow> error + string list" where
  "readdir h p w =
     (case fs_readdir h p w of
        Inl e \<Rightarrow> Inl e
      | Inr children \<Rightarrow> Inr (handleDirectoryChildren h children))"

text \<open>\<^verbatim>\<open>fs.readdirSync\<close> is the same primitive as \<^verbatim>\<open>fs.readdir\<close>, called synchronously.\<close>

definition readdirSync :: "'w host \<Rightarrow> path \<Rightarrow> 'w \<Rightarrow> error + string list" where
  "readdirSync h p w =
     (case fs_readdir h p w of
        Inl e \<Rightarrow> Inl e
      | Inr children \<Rightarrow> Inr (handleDirectoryChildren h children))"

definition readdirWithFileTypes :: "'w host \<Rightarrow> path \<Rightarrow> 'w \<Rightarrow> error + Dirent list" where
  "readdirWithFileTypes h p w =
     (case fs_readdirTypes h p w of
        Inl e \<Rightarrow> Inl e
      | Inr children \<Rightarrow>
          Inr (if isMacintosh h
               then map (\<lambda>child. child\<lparr>name := normalizeNFC h (name child)\<rparr>) children
               else children))"

subsection \<open>Methods with symbolic links support\<close>

text \<open>
  \<^verbatim>\<open>SymlinkSupport.stat\<close>. \<open>lstats\<close> is \<open>None\<close> while the variable is \<^verbatim>\<open>undefined\<close>,
  that is when \<^verbatim>\<open>lstat\<close> has thrown. \<open>statTarget\<close> is the second \<^verbatim>\<open>try\<close> of the source.
\<close>

definition statTarget :: "'w host \<Rightarrow> path \<Rightarrow> 'w \<Rightarrow> stats option \<Rightarrow> error + IStats" where
  "statTarget h p w lstats =
     (case fs_stat h p w of
        Inr stats \<Rightarrow>
          Inr \<lparr>stat = stats,
               symbolicLink = (case lstats of
                                 Some l \<Rightarrow> if isSymbolicLink l then Some False else None
                               | None \<Rightarrow> None)\<rparr>
      | Inl err \<Rightarrow>
          (case lstats of
             None \<Rightarrow> Inl err
           | Some l \<Rightarrow>
               if code err = Some ''ENOENT'' then Inr \<lparr>stat = l, symbolicLink = Some True\<rparr>
               else if isWindows h \<and> code err = Some ''EACCES'' then
                 (case (case fs_readlink h p w of
                          Inl e \<Rightarrow> Inl e
                        | Inr target \<Rightarrow> fs_stat h target w) of
                    Inr stats \<Rightarrow>
                      Inr \<lparr>stat = stats,
                           symbolicLink = (if isSymbolicLink l then Some False else None)\<rparr>
                  | Inl err2 \<Rightarrow>
                      if code err2 = Some ''ENOENT''
                      then Inr \<lparr>stat = l, symbolicLink = Some True\<rparr>
                      else Inl err2)
               else Inl err))"

definition SymlinkSupport_stat :: "'w host \<Rightarrow> path \<Rightarrow> 'w \<Rightarrow> error + IStats" where
  "SymlinkSupport_stat h p w =
     (case fs_lstat h p w of
        Inr l \<Rightarrow>
          if \<not> isSymbolicLink l then Inr \<lparr>stat = l, symbolicLink = None\<rparr>
          else statTarget h p w (Some l)
      | Inl e \<Rightarrow> statTarget h p w None)"

text \<open>
  \<^verbatim>\<open>fileExists\<close> and \<^verbatim>\<open>dirExists\<close> return a result of the same shape as every other
  call, so that "does not throw" is a statement about the value.
\<close>

definition fileExists :: "'w host \<Rightarrow> path \<Rightarrow> 'w \<Rightarrow> error + bool" where
  "fileExists h p w =
     (case SymlinkSupport_stat h p w of
        Inr r \<Rightarrow> Inr (isFile (stat r) \<and> symbolicLink r \<noteq> Some True)
      | Inl e \<Rightarrow> Inr False)"

definition dirExists :: "'w host \<Rightarrow> path \<Rightarrow> 'w \<Rightarrow> error + bool" where
  "dirExists h p w =
     (case SymlinkSupport_stat h p w of
        Inr r \<Rightarrow> Inr (isDirectory (stat r) \<and> symbolicLink r \<noteq> Some True)
      | Inl e \<Rightarrow> Inr False)"

subsection \<open>Write file\<close>

record IWriteFileOptions =
  opt_mode :: "nat option"
  opt_flag :: "string option"

record IEnsuredWriteFileOptions =
  ensured_mode :: nat
  ensured_flag :: string

text \<open>\<^verbatim>\<open>0o666\<close> is 438.\<close>

definition ensureWriteOptions :: "IWriteFileOptions option \<Rightarrow> IEnsuredWriteFileOptions" where
  "ensureWriteOptions options =
     (case options of
        None \<Rightarrow> \<lparr>ensured_mode = 438, ensured_flag = ''w''\<rparr>
      | Some opts \<Rightarrow>
          \<lparr>ensured_mode = (case opt_mode opts of Some m \<Rightarrow> m | None \<Rightarrow> 438),
           ensured_flag = (case opt_flag opts of Some f \<Rightarrow> f | None \<Rightarrow> ''w'')\<rparr>)"

text \<open>
  The module variable \<^verbatim>\<open>canFlush\<close> is passed in and returned. The result is the argument
  the callback receives, the new \<^verbatim>\<open>canFlush\<close> and the file system. The warning on the
  console is not modelled.
\<close>

definition doWriteFileAndFlush ::
  "'w host \<Rightarrow> bool \<Rightarrow> path \<Rightarrow> string \<Rightarrow> IEnsuredWriteFileOptions \<Rightarrow> 'w \<Rightarrow> error option \<times> bool \<times> 'w"
where
  "doWriteFileAndFlush h canFlush p data options w =
     (if \<not> canFlush then
        (let (r, w1) = fs_writePath h p data (ensured_mode options) (ensured_flag options) w
         in (r, canFlush, w1))
      else
        (case fs_open h p (ensured_flag options) (ensured_mode options) w of
           (Inl openError, w1) \<Rightarrow> (Some openError, canFlush, w1)
         | (Inr fd, w1) \<Rightarrow>
             (case fs_writeFd h fd data w1 of
                (Some writeError, w2) \<Rightarrow>
                  (let (closeError, w3) = fs_close h fd w2 in (Some writeError, canFlush, w3))
              | (None, w2) \<Rightarrow>
                  (let (syncError, w3) = fs_fdatasync h fd w2;
                       canFlush' = (if syncError \<noteq> None then False else canFlush);
                       (closeError, w4) = fs_close h fd w3
                   in (closeError, canFlush', w4)))))"

text \<open>
  What one call of \<^verbatim>\<open>writeFile\<close> does once its queue lets it run: the body of the
  function it hands to the queue.
\<close>

definition writeFile_run ::
  "'w host \<Rightarrow> bool \<Rightarrow> path \<Rightarrow> string \<Rightarrow> IWriteFileOptions option \<Rightarrow> 'w \<Rightarrow> error option \<times> bool \<times> 'w"
where
  "writeFile_run h canFlush p data options w =
     doWriteFileAndFlush h canFlush p data (ensureWriteOptions options) w"

text \<open>
  \<^verbatim>\<open>writeFileSync\<close> uses the synchronous forms of the same primitives. An exception of
  \<^verbatim>\<open>closeSync\<close> in the \<^verbatim>\<open>finally\<close> block replaces a pending one.
\<close>

definition writeFileSync ::
  "'w host \<Rightarrow> bool \<Rightarrow> path \<Rightarrow> string \<Rightarrow> IWriteFileOptions option \<Rightarrow> 'w \<Rightarrow> error option \<times> bool \<times> 'w"
where
  "writeFileSync h canFlush p data options w =
     (let ensuredOptions = ensureWriteOptions options in
      if \<not> canFlush then
        (let (r, w1) = fs_writePath h p data (ensured_mode ensuredOptions)
                         (ensured_flag ensuredOptions) w
         in (r, canFlush, w1))
      else
        (case fs_open h p (ensured_flag ensuredOptions) (ensured_mode ensuredOptions) w of
           (Inl openError, w1) \<Rightarrow> (Some openError, canFlush, w1)
         | (Inr fd, w1) \<Rightarrow>
             (case fs_writeFd h fd data w1 of
                (Some writeError, w2) \<Rightarrow>
                  (let (closeError, w3) = fs_close h fd w2
                   in ((case closeError of Some c \<Rightarrow> Some c | None \<Rightarrow> Some writeError),
                       canFlush, w3))
              | (None, w2) \<Rightarrow>
                  (let (syncError, w3) = fs_fdatasync h fd w2;
                       canFlush' = (if syncError \<noteq> None then False else canFlush);
                       (closeError, w4) = fs_close h fd w3
                   in (closeError, canFlush', w4)))))"

subsection \<open>Move and copy\<close>

text \<open>\<^verbatim>\<open>s.endsWith(t)\<close> of JavaScript.\<close>

definition endsWith :: "string \<Rightarrow> string \<Rightarrow> bool" where
  "endsWith s t = (length t \<le> length s \<and> drop (length s - length t) s = t)"

text \<open>
  \<^verbatim>\<open>updateMtime\<close>, the local function of \<^verbatim>\<open>move\<close>. It catches every error, so it only
  returns a file system. \<^verbatim>\<open>fs.promises.open(path, 'a')\<close> uses node's default mode
  \<^verbatim>\<open>0o666\<close>; the new modification time \<^verbatim>\<open>new Date()\<close> is the host's.
\<close>

definition updateMtime :: "'w host \<Rightarrow> path \<Rightarrow> 'w \<Rightarrow> 'w" where
  "updateMtime h p w =
     (case fs_lstat h p w of
        Inl e \<Rightarrow> w
      | Inr st \<Rightarrow>
          if isDirectory st \<or> isSymbolicLink st then w
          else (case fs_open h p ''a'' 438 w of
                  (Inl e, w1) \<Rightarrow> w1
                | (Inr fh, w1) \<Rightarrow>
                    (let (utimesError, w2) = fs_utimes h fh (atime st) w1;
                         (closeError, w3) = fs_close h fh w2
                     in w3)))"

text \<open>
  \<^verbatim>\<open>doCopyFile\<close>: \<open>fs_pipe\<close> is the piping of the read stream into the write stream
  until the writer closes or one of the two reports an error; \<^verbatim>\<open>chmod\<close> follows a
  close without error.
\<close>

definition doCopyFile :: "'w host \<Rightarrow> path \<Rightarrow> path \<Rightarrow> nat \<Rightarrow> 'w \<Rightarrow> error option \<times> 'w" where
  "doCopyFile h source target m w =
     (case fs_pipe h source target m w of
        (Some e, w1) \<Rightarrow> (Some e, w1)
      | (None, w1) \<Rightarrow> fs_chmod h target m w1)"

text \<open>
  A \<^verbatim>\<open>for\<close> loop whose body is awaited: it stops at the first error. \<open>None\<close> is a body
  that never returns.
\<close>

fun forEach ::
  "('a \<Rightarrow> 's \<Rightarrow> (error option \<times> 's) option) \<Rightarrow> 'a list \<Rightarrow> 's \<Rightarrow> (error option \<times> 's) option"
where
  "forEach body [] s = Some (None, s)"
| "forEach body (x # xs) s =
     (case body x s of
        None \<Rightarrow> None
      | Some (Some e, s') \<Rightarrow> Some (Some e, s')
      | Some (None, s') \<Rightarrow> forEach body xs s')"

text \<open>
  \<^verbatim>\<open>copy\<close>. The recursion of the source has no bound of its own, so the model counts
  the depth of the recursion: \<open>copy n\<close> is \<open>None\<close> when \<open>n\<close> nested calls were not enough.
  \<^verbatim>\<open>handledSources\<close> is one object shared by all the calls, so it is returned with the
  file system. The object is modelled by the set of the keys whose lookup
  \<^verbatim>\<open>handledSources[key]\<close> is truthy: for the two-argument call, \<^verbatim>\<open>Object.create(null)\<close>, that
  is the empty set; for an ordinary object handed in by the caller it holds the keys set
  to a truthy value and the keys the object inherits (\<^verbatim>\<open>constructor\<close> and the like on a
  plain \<^verbatim>\<open>{}\<close>), on which \<^verbatim>\<open>copy\<close> returns at once. \<^verbatim>\<open>COPY_MODE_MASK\<close> is \<^verbatim>\<open>0o777\<close>, 511.
\<close>

definition COPY_MODE_MASK :: nat where
  "COPY_MODE_MASK = 511"

fun copy ::
  "nat \<Rightarrow> 'w host \<Rightarrow> path \<Rightarrow> path \<Rightarrow> path set option \<Rightarrow> 'w \<Rightarrow> (error option \<times> path set \<times> 'w) option"
where
  "copy 0 h source target handledSourcesIn w = None"
| "copy (Suc n) h source target handledSourcesIn w =
     (let handledSources = (case handledSourcesIn of Some hs \<Rightarrow> hs | None \<Rightarrow> {}) in
      if source \<in> handledSources then Some (None, handledSources, w)
      else
        (let handled = insert source handledSources in
         case SymlinkSupport_stat h source w of
           Inl e \<Rightarrow> Some (Some e, handled, w)
         | Inr r \<Rightarrow>
             if symbolicLink r = Some True then Some (None, handled, w)
             else if \<not> isDirectory (stat r) then
               (let (e, w1) = doCopyFile h source target
                                (and (mode (stat r)) COPY_MODE_MASK) w
                in Some (e, handled, w1))
             else
               (case fs_mkdir h target (and (mode (stat r)) COPY_MODE_MASK) w of
                  (Some e, w1) \<Rightarrow> Some (Some e, handled, w1)
                | (None, w1) \<Rightarrow>
                    (case readdir h source w1 of
                       Inl e \<Rightarrow> Some (Some e, handled, w1)
                     | Inr files \<Rightarrow>
                         forEach
                           (\<lambda>file (hs, w').
                              copy n h (join h source file) (join h target file) (Some hs) w')
                           files (handled, w1)))))"

text \<open>
  \<^verbatim>\<open>move\<close>. \<^verbatim>\<open>updateMtime\<close> never throws, so the \<^verbatim>\<open>catch\<close> only sees an error of the
  rename. \<^verbatim>\<open>a && b || c\<close> is \<^verbatim>\<open>(a && b) || c\<close>.
\<close>

definition move :: "nat \<Rightarrow> 'w host \<Rightarrow> path \<Rightarrow> path \<Rightarrow> 'w \<Rightarrow> 'w outcome option" where
  "move n h source target w =
     (if source = target then Some (settled None w)
      else
        (case fs_rename h source target w of
           (None, w1) \<Rightarrow> Some (settled None (updateMtime h target w1))
         | (Some err, w1) \<Rightarrow>
             if (toLowerCase h source \<noteq> toLowerCase h target \<and> code err = Some ''EXDEV'')
                \<or> endsWith source ''.''
             then
               (case copy n h source target None w1 of
                  None \<Rightarrow> None
                | Some (Some e, hs, w2) \<Rightarrow> Some (settled (Some e) w2)
                | Some (None, hs, w2) \<Rightarrow>
                    (let r = rimraf h source MOVE w2 in
                     case failure r of
                       Some e \<Rightarrow> Some r
                     | None \<Rightarrow> Some (r\<lparr>world := updateMtime h target (world r)\<rparr>)))
             else Some (settled (Some err) w1)))"

subsection \<open>The write queues\<close>

definition toQueueKey :: "'w host \<Rightarrow> path \<Rightarrow> string" where
  "toQueueKey h p = (if isWindows h \<or> isMacintosh h then toLowerCase h p else p)"

text \<open>
  Modelled from the spec: the class \<^verbatim>\<open>Queue\<close> of \<^verbatim>\<open>vs/base/common/async\<close> is not among
  the sources. The spec calls it "a simple per-path mutex queue": the tasks handed to a
  queue run one at a time, in the order they were handed over. A queue is the list of its
  tasks that have not settled yet, oldest first; the first of them is the one running.
  \<^verbatim>\<open>onFinished\<close> fires when the last task of the queue has settled.
\<close>

type_synonym 't Queue = "'t list"

definition Queue_new :: "'t Queue" where
  "Queue_new = []"

definition Queue_queue :: "'t Queue \<Rightarrow> 't \<Rightarrow> 't Queue" where
  "Queue_queue q t = q @ [t]"

definition Queue_running :: "'t Queue \<Rightarrow> 't list" where
  "Queue_running q = take 1 q"

text \<open>
  The module state: the map \<^verbatim>\<open>writeFilePathQueues\<close>, and two logs that the source does
  not keep, the writes in the order they started and in the order they settled, each
  with the key of its queue.
\<close>

record 't writes =
  writeFilePathQueues :: "string \<rightharpoonup> 't Queue"
  started :: "(string \<times> 't) list"
  finished :: "(string \<times> 't) list"

definition no_writes :: "'t writes" where
  "no_writes = \<lparr>writeFilePathQueues = Map.empty, started = [], finished = []\<rparr>"

definition ensureWriteFileQueue :: "string \<Rightarrow> (string \<rightharpoonup> 't Queue) \<Rightarrow> (string \<rightharpoonup> 't Queue)" where
  "ensureWriteFileQueue queueKey queues =
     (case queues queueKey of
        Some existingWriteFileQueue \<Rightarrow> queues
      | None \<Rightarrow> queues(queueKey \<mapsto> Queue_new))"

text \<open>
  \<^verbatim>\<open>writeFile\<close> as the caller sees it: the write \<open>t\<close> (the function handed to the
  queue) joins the queue of its key, and starts at once when that queue is idle.
\<close>

definition writeFile :: "'w host \<Rightarrow> path \<Rightarrow> 't \<Rightarrow> 't writes \<Rightarrow> 't writes" where
  "writeFile h p t s =
     (let queueKey = toQueueKey h p;
          queues = ensureWriteFileQueue queueKey (writeFilePathQueues s)
      in case queues queueKey of
           None \<Rightarrow> s
         | Some q \<Rightarrow>
             s\<lparr>writeFilePathQueues := queues(queueKey \<mapsto> Queue_queue q t),
               started := (if q = [] then started s @ [(queueKey, t)] else started s)\<rparr>)"

text \<open>
  Modelled from the spec: what the absent \<^verbatim>\<open>Queue\<close> does when its running task settles.
  The running write of the queue \<open>queueKey\<close> leaves the queue and the next one starts;
  after the last one \<^verbatim>\<open>onFinished\<close> fires. The listener that \<^verbatim>\<open>ensureWriteFileQueue\<close>
  registered for it is in the source: it deletes the queue from the map.
\<close>

definition settle :: "string \<Rightarrow> 't writes \<Rightarrow> 't writes" where
  "settle queueKey s =
     (case writeFilePathQueues s queueKey of
        None \<Rightarrow> s
      | Some [] \<Rightarrow> s
      | Some (t # rest) \<Rightarrow>
          (case rest of
             [] \<Rightarrow> s\<lparr>writeFilePathQueues := (writeFilePathQueues s)(queueKey := None),
                     finished := finished s @ [(queueKey, t)]\<rparr>
           | next # later \<Rightarrow>
               s\<lparr>writeFilePathQueues := (writeFilePathQueues s)(queueKey \<mapsto> rest),
                 started := started s @ [(queueKey, next)],
                 finished := finished s @ [(queueKey, t)]\<rparr>))"

datatype 't event = Call path 't | Settle string

fun step :: "'w host \<Rightarrow> 't writes \<Rightarrow> 't event \<Rightarrow> 't writes" where
  "step h s (Call p t) = writeFile h p t s"
| "step h s (Settle queueKey) = settle queueKey s"

fun run :: "'w host \<Rightarrow> 't writes \<Rightarrow> 't event list \<Rightarrow> 't writes" where
  "run h s [] = s"
| "run h s (e # es) = run h (step h s e) es"

fun keyOf :: "'w host \<Rightarrow> 't event \<Rightarrow> string" where
  "keyOf h (Call p t) = toQueueKey h p"
| "keyOf h (Settle queueKey) = queueKey"

text \<open>The writes of one key: handed over, waiting or running, started, settled.\<close>

definition submitted :: "'w host \<Rightarrow> string \<Rightarrow> 't event list \<Rightarrow> 't list" where
  "submitted h k es = concat (map (\<lambda>e. case e of Call p t \<Rightarrow> if toQueueKey h p = k then [t] else []
                                         | Settle q \<Rightarrow> []) es)"

definition pending :: "'t writes \<Rightarrow> string \<Rightarrow> 't list" where
  "pending s k = (case writeFilePathQueues s k of None \<Rightarrow> [] | Some q \<Rightarrow> q)"

definition startedOf :: "'t writes \<Rightarrow> string \<Rightarrow> 't list" where
  "startedOf s k = map snd (filter (\<lambda>x. fst x = k) (started s))"

definition finishedOf :: "'t writes \<Rightarrow> string \<Rightarrow> 't list" where
  "finishedOf s k = map snd (filter (\<lambda>x. fst x = k) (finished s))"

text \<open>
  What the module holds for one key: the writes waiting or running, those started and
  those settled.
\<close>

definition view :: "'t writes \<Rightarrow> string \<Rightarrow> 't list \<times> 't list \<times> 't list" where
  "view s k = (pending s k, startedOf s k, finishedOf s k)"

subsection \<open>A small file system to run the functions on\<close>

text \<open>
  A host for concrete runs. A file has the bytes the running system sees (\<open>contents\<close>)
  and the bytes that have reached stable storage (\<open>stable\<close>); \<open>handles\<close> are the open
  descriptors; \<open>calls\<close> logs the primitives that changed something; \<open>faults\<close> names the
  primitives that fail and the error code each fails with. Opening with the flag
  \<^verbatim>\<open>w\<close> creates or truncates the file, as node documents it; \<^verbatim>\<open>fdatasync\<close> is what
  carries the bytes of a file to stable storage.
\<close>

record sim =
  contents :: "(path \<times> string) list"
  stable :: "(path \<times> string) list"
  handles :: "(fd \<times> path) list"
  calls :: "string list"
  faults :: "(string \<times> string) list"

definition fault :: "sim \<Rightarrow> string \<Rightarrow> error option" where
  "fault w prim = map_option SysError (map_of (faults w) prim)"

definition logged :: "string \<Rightarrow> sim \<Rightarrow> sim" where
  "logged c w = w\<lparr>calls := calls w @ [c]\<rparr>"

definition bytes :: "sim \<Rightarrow> path \<Rightarrow> string" where
  "bytes w p = (case map_of (contents w) p of Some b \<Rightarrow> b | None \<Rightarrow> [])"

definition put :: "path \<Rightarrow> string \<Rightarrow> (path \<times> string) list \<Rightarrow> (path \<times> string) list" where
  "put p b files = (p, b) # filter (\<lambda>x. fst x \<noteq> p) files"

definition sim_open :: "path \<Rightarrow> string \<Rightarrow> nat \<Rightarrow> sim \<Rightarrow> (error + fd) \<times> sim" where
  "sim_open p flag m w =
     (case fault w ''open'' of
        Some e \<Rightarrow> (Inl e, w)
      | None \<Rightarrow>
          (let d = length (handles w) in
           (Inr d,
            logged ''open''
              (w\<lparr>handles := (d, p) # handles w,
                 contents := put p (if flag = ''w'' then [] else bytes w p) (contents w)\<rparr>))))"

definition sim_writeFd :: "fd \<Rightarrow> string \<Rightarrow> sim \<Rightarrow> error option \<times> sim" where
  "sim_writeFd d data w =
     (case map_of (handles w) d of
        None \<Rightarrow> (Some (SysError ''EBADF''), w)
      | Some p \<Rightarrow>
          (case fault w ''write'' of
             Some e \<Rightarrow> (Some e, w)
           | None \<Rightarrow> (None, logged ''write'' (w\<lparr>contents := put p (bytes w p @ data) (contents w)\<rparr>))))"

definition sim_writePath :: "path \<Rightarrow> string \<Rightarrow> nat \<Rightarrow> string \<Rightarrow> sim \<Rightarrow> error option \<times> sim" where
  "sim_writePath p data m flag w =
     (case fault w ''writeFile'' of
        Some e \<Rightarrow> (Some e, w)
      | None \<Rightarrow>
          (None, logged ''writeFile''
                   (w\<lparr>contents := put p ((if flag = ''w'' then [] else bytes w p) @ data) (contents w)\<rparr>)))"

definition sim_fdatasync :: "fd \<Rightarrow> sim \<Rightarrow> error option \<times> sim" where
  "sim_fdatasync d w =
     (case map_of (handles w) d of
        None \<Rightarrow> (Some (SysError ''EBADF''), w)
      | Some p \<Rightarrow>
          (case fault w ''fdatasync'' of
             Some e \<Rightarrow> (Some e, w)
           | None \<Rightarrow> (None, logged ''fdatasync'' (w\<lparr>stable := put p (bytes w p) (stable w)\<rparr>))))"

definition sim_close :: "fd \<Rightarrow> sim \<Rightarrow> error option \<times> sim" where
  "sim_close d w =
     (case fault w ''close'' of
        Some e \<Rightarrow> (Some e, w)
      | None \<Rightarrow> (None, logged ''close'' (w\<lparr>handles := filter (\<lambda>x. fst x \<noteq> d) (handles w)\<rparr>)))"

definition sim_rename :: "path \<Rightarrow> path \<Rightarrow> sim \<Rightarrow> error option \<times> sim" where
  "sim_rename source target w =
     (case fault w ''rename'' of
        Some e \<Rightarrow> (Some e, w)
      | None \<Rightarrow>
          (None, logged ''rename''
                   (w\<lparr>contents := put target (bytes w source) (filter (\<lambda>x. fst x \<noteq> source) (contents w))\<rparr>)))"

definition sim_rmdir :: "path \<Rightarrow> sim \<Rightarrow> error option \<times> sim" where
  "sim_rmdir p w =
     (case fault w ''rmdir'' of
        Some e \<Rightarrow> (Some e, w)
      | None \<Rightarrow> (None, logged ''rmdir'' (w\<lparr>contents := filter (\<lambda>x. fst x \<noteq> p) (contents w)\<rparr>)))"

definition sim_pipe :: "path \<Rightarrow> path \<Rightarrow> nat \<Rightarrow> sim \<Rightarrow> error option \<times> sim" where
  "sim_pipe source target m w =
     (case fault w ''pipe'' of
        Some e \<Rightarrow> (Some e, w)
      | None \<Rightarrow> (None, logged ''pipe'' (w\<lparr>contents := put target (bytes w source) (contents w)\<rparr>)))"

definition sim_touch :: "string \<Rightarrow> sim \<Rightarrow> error option \<times> sim" where
  "sim_touch prim w = (case fault w prim of Some e \<Rightarrow> (Some e, w) | None \<Rightarrow> (None, logged prim w))"

definition regular :: stats where
  "regular = \<lparr>isFile = True, isDirectory = False, isSymbolicLink = False, mode = 420, atime = 0\<rparr>"

definition directory :: stats where
  "directory = \<lparr>isFile = False, isDirectory = True, isSymbolicLink = False, mode = 493, atime = 0\<rparr>"

definition link :: stats where
  "link = \<lparr>isFile = False, isDirectory = False, isSymbolicLink = True, mode = 511, atime = 0\<rparr>"

text \<open>
  Every path with bytes is a regular file; paths are joined with a slash; the only root
  is \<^verbatim>\<open>/\<close>; the case of letters and the Unicode form are left as they are.
\<close>

definition sim_lstat :: "path \<Rightarrow> sim \<Rightarrow> error + stats" where
  "sim_lstat p w =
     (case map_of (contents w) p of Some b \<Rightarrow> Inr regular | None \<Rightarrow> Inl (SysError ''ENOENT''))"

definition sim_host :: "sim host" where
  "sim_host =
     \<lparr>isWindows = False, isMacintosh = False,
      toLowerCase = (\<lambda>s. s), normalizeNFC = (\<lambda>s. s),
      join = (\<lambda>a b. a @ ''/'' @ b), tmpdir = ''/tmp'',
      generateUuid = (\<lambda>w. (''uuid'', w)),
      isRootOrDriveLetter = (\<lambda>p. p = ''/''),
      fs_rename = sim_rename, fs_rmdir = sim_rmdir,
      fs_readdir = (\<lambda>p w. Inl (SysError ''ENOTDIR'')),
      fs_readdirTypes = (\<lambda>p w. Inl (SysError ''ENOTDIR'')),
      fs_lstat = sim_lstat, fs_stat = sim_lstat,
      fs_readlink = (\<lambda>p w. Inl (SysError ''EINVAL'')),
      fs_open = sim_open, fs_writeFd = sim_writeFd, fs_writePath = sim_writePath,
      fs_fdatasync = sim_fdatasync, fs_close = sim_close,
      fs_utimes = (\<lambda>d t. sim_touch ''utimes''),
      fs_mkdir = (\<lambda>p m. sim_touch ''mkdir''),
      fs_pipe = sim_pipe,
      fs_chmod = (\<lambda>p m. sim_touch ''chmod'')\<rparr>"

definition disk :: "(path \<times> string) list \<Rightarrow> (string \<times> string) list \<Rightarrow> sim" where
  "disk files fs = \<lparr>contents = files, stable = files, handles = [], calls = [], faults = fs\<rparr>"

text \<open>
  A Mac host for the directory listings. Its \<^verbatim>\<open>normalizeNFC\<close> stands for the composition of
  a letter with a following accent: it turns the two characters \<^verbatim>\<open>e`\<close> into \<^verbatim>\<open>E\<close>.
\<close>

definition compose :: "string \<Rightarrow> string" where
  "compose s = (if s = ''e`'' then ''E'' else s)"

definition mac_host :: "sim host" where
  "mac_host = sim_host\<lparr>isMacintosh := True, normalizeNFC := compose,
                fs_readdir := (\<lambda>p w. Inr [''e`'', ''b''])\<rparr>"

text \<open>
  A Windows host for the queue keys. Its \<^verbatim>\<open>toLowerCase\<close> only knows the letter A.
\<close>

definition win_host :: "sim host" where
  "win_host = sim_host\<lparr>isWindows := True,
                toLowerCase := map (\<lambda>c. if c = CHR ''A'' then CHR ''a'' else c)\<rparr>"







section \<open>Properties\<close>

lemmas sim_defs = sim_host_def sim_open_def sim_writeFd_def sim_writePath_def sim_fdatasync_def
  sim_close_def sim_rename_def sim_rmdir_def sim_pipe_def sim_touch_def sim_lstat_def
  fault_def logged_def bytes_def put_def disk_def

subsection \<open>rimraf\<close>

text \<open>
  C8. For a path that \<^verbatim>\<open>isRootOrDriveLetter\<close> accepts, \<^verbatim>\<open>rimraf\<close> (in either mode) and
  \<^verbatim>\<open>rimrafSync\<close> throw the refusal and do nothing else: no deletion is started and the
  file system is the one they were called on.
\<close>

theorem rimraf_refuses_root:
  assumes "isRootOrDriveLetter h p"
  shows "rimraf h p m w = \<lparr>failure = Some refuse_root, background = [], world = w\<rparr>
       \<and> rimrafSync h p w = \<lparr>failure = Some refuse_root, background = [], world = w\<rparr>"
  using assms by (simp add: rimraf_def rimrafSync_def settled_def)

theorem rimraf_refuses_root_witness:
  "isRootOrDriveLetter sim_host ''/''
   \<and> rimraf sim_host ''/'' MOVE (disk [(''/etc'', ''x'')] [])
       = \<lparr>failure = Some refuse_root, background = [], world = disk [(''/etc'', ''x'')] []\<rparr>
   \<and> rimrafSync sim_host ''/'' (disk [(''/etc'', ''x'')] [])
       = \<lparr>failure = Some refuse_root, background = [], world = disk [(''/etc'', ''x'')] []\<rparr>"
proof -
  have r: "isRootOrDriveLetter sim_host ''/''"
    by (simp add: sim_host_def)
  show ?thesis
    using r rimraf_refuses_root [OF r, of MOVE "disk [(''/etc'', ''x'')] []"] by simp
qed

text \<open>
  C7, as the claim states it, fails for a root: \<^verbatim>\<open>rimraf('/', RimRafMode.MOVE)\<close> throws
  before any rename, although the rename itself would have gone through.
\<close>

theorem rimraf_move_root_counterexample:
  "failure (rimraf sim_host ''/'' MOVE (disk [(''/'', ''x'')] [])) = Some refuse_root
   \<and> calls (world (rimraf sim_host ''/'' MOVE (disk [(''/'', ''x'')] []))) = []
   \<and> fs_rename sim_host ''/'' (join sim_host (tmpdir sim_host) ''uuid'') (disk [(''/'', ''x'')] [])
       = (None, \<lparr>contents = [(''/tmp/uuid'', ''x'')], stable = [(''/'', ''x'')], handles = [],
                 calls = [''rename''], faults = []\<rparr>)"
  by (simp add: rimraf_def settled_def sim_defs)

text \<open>
  C7, amended. For a path that is not a root or drive letter, \<^verbatim>\<open>rimraf(path, MOVE)\<close>
  renames the path to \<^verbatim>\<open>join(tmpdir(), generateUuid())\<close>. When the rename succeeds the
  call resolves with the recursive deletion of that temp location started and not
  awaited, whatever that deletion will answer. When the rename fails the call is the
  recursive deletion of the path itself, in place.
\<close>

theorem rimraf_move_steps:
  assumes "\<not> isRootOrDriveLetter h p" and "generateUuid h w = (uuid, w0)"
  shows "(fs_rename h p (join h (tmpdir h) uuid) w0 = (None, w1) \<longrightarrow>
            rimraf h p MOVE w
              = \<lparr>failure = None, background = [join h (tmpdir h) uuid], world = w1\<rparr>)
       \<and> (fs_rename h p (join h (tmpdir h) uuid) w0 = (Some e, w1) \<longrightarrow>
            fs_rmdir h p w1 = (r, w2) \<longrightarrow>
            rimraf h p MOVE w = \<lparr>failure = r, background = [], world = w2\<rparr>)"
  using assms by (simp add: rimraf_def rimrafMove_def rimrafUnlink_def settled_def)

theorem rimraf_move_steps_witness:
  "\<not> isRootOrDriveLetter sim_host ''/a''
   \<and> rimraf sim_host ''/a'' MOVE (disk [(''/a'', ''x'')] [])
       = \<lparr>failure = None, background = [''/tmp/uuid''],
          world = \<lparr>contents = [(''/tmp/uuid'', ''x'')], stable = [(''/a'', ''x'')], handles = [],
                   calls = [''rename''], faults = []\<rparr>\<rparr>
   \<and> rimraf sim_host ''/a'' MOVE (disk [(''/a'', ''x'')] [(''rename'', ''EPERM'')])
       = \<lparr>failure = None, background = [],
          world = \<lparr>contents = [], stable = [(''/a'', ''x'')], handles = [],
                   calls = [''rmdir''], faults = [(''rename'', ''EPERM'')]\<rparr>\<rparr>"
proof -
  let ?ok = "disk [(''/a'', ''x'')] []"
  let ?bad = "disk [(''/a'', ''x'')] [(''rename'', ''EPERM'')]"
  let ?ok1 = "\<lparr>contents = [(''/tmp/uuid'', ''x'')], stable = [(''/a'', ''x'')], handles = [],
               calls = [''rename''], faults = []\<rparr>"
  let ?bad2 = "\<lparr>contents = [], stable = [(''/a'', ''x'')], handles = [],
                calls = [''rmdir''], faults = [(''rename'', ''EPERM'')]\<rparr>"
  have n: "\<not> isRootOrDriveLetter sim_host ''/a''"
    by (simp add: sim_host_def)
  have u1: "generateUuid sim_host ?ok = (''uuid'', ?ok)"
    and u2: "generateUuid sim_host ?bad = (''uuid'', ?bad)"
    and t: "join sim_host (tmpdir sim_host) ''uuid'' = ''/tmp/uuid''"
    by (simp_all add: sim_host_def)
  have a: "fs_rename sim_host ''/a'' ''/tmp/uuid'' ?ok = (None, ?ok1)"
    by (simp add: sim_defs)
  have b: "fs_rename sim_host ''/a'' ''/tmp/uuid'' ?bad = (Some (SysError ''EPERM''), ?bad)"
    by (simp add: sim_defs)
  have c: "fs_rmdir sim_host ''/a'' ?bad = (None, ?bad2)"
    by (simp add: sim_defs)
  show ?thesis
    using n a b c
      rimraf_move_steps [OF n u1, of ?ok1 "SysError ''EPERM''" None ?bad2]
      rimraf_move_steps [OF n u2, of ?bad "SysError ''EPERM''" None ?bad2]
    by (simp add: t)
qed

subsection \<open>Symbolic links\<close>

text \<open>
  C4. For a symbolic link (\<^verbatim>\<open>lstat\<close> answers with a link), \<^verbatim>\<open>SymlinkSupport.stat\<close>
  returns the stats of the target with \<^verbatim>\<open>dangling: false\<close> when \<^verbatim>\<open>fs.stat\<close> finds the
  target, and the \<^verbatim>\<open>lstat\<close> result with \<^verbatim>\<open>dangling: true\<close> when \<^verbatim>\<open>fs.stat\<close> fails with
  \<^verbatim>\<open>ENOENT\<close>. For a path that is not a link it returns the \<^verbatim>\<open>lstat\<close> result and no
  \<^verbatim>\<open>symbolicLink\<close> field.
\<close>

theorem SymlinkSupport_stat_follows_links:
  "(fs_lstat h p w = Inr l \<and> isSymbolicLink l \<and> fs_stat h p w = Inr s \<longrightarrow>
      SymlinkSupport_stat h p w = Inr \<lparr>stat = s, symbolicLink = Some False\<rparr>)
 \<and> (fs_lstat h p w = Inr l \<and> isSymbolicLink l \<and> fs_stat h p w = Inl e
      \<and> code e = Some ''ENOENT'' \<longrightarrow>
      SymlinkSupport_stat h p w = Inr \<lparr>stat = l, symbolicLink = Some True\<rparr>)
 \<and> (fs_lstat h p w = Inr l \<and> \<not> isSymbolicLink l \<longrightarrow>
      SymlinkSupport_stat h p w = Inr \<lparr>stat = l, symbolicLink = None\<rparr>)"
  by (simp add: SymlinkSupport_stat_def statTarget_def)

theorem SymlinkSupport_stat_follows_links_witness:
  "SymlinkSupport_stat
     (sim_host\<lparr>fs_lstat := (\<lambda>p w. Inr link), fs_stat := (\<lambda>p w. Inr directory)\<rparr>)
     ''/l'' (disk [] []) = Inr \<lparr>stat = directory, symbolicLink = Some False\<rparr>
 \<and> SymlinkSupport_stat
     (sim_host\<lparr>fs_lstat := (\<lambda>p w. Inr link), fs_stat := (\<lambda>p w. Inl (SysError ''ENOENT''))\<rparr>)
     ''/l'' (disk [] []) = Inr \<lparr>stat = link, symbolicLink = Some True\<rparr>
 \<and> SymlinkSupport_stat sim_host ''/f'' (disk [(''/f'', ''x'')] [])
     = Inr \<lparr>stat = regular, symbolicLink = None\<rparr>"
proof -
  let ?h1 = "sim_host\<lparr>fs_lstat := (\<lambda>p w. Inr link), fs_stat := (\<lambda>p w. Inr directory)\<rparr>"
  let ?h2 = "sim_host\<lparr>fs_lstat := (\<lambda>p w. Inr link),
                       fs_stat := (\<lambda>p w. Inl (SysError ''ENOENT''))\<rparr>"
  have a: "fs_lstat ?h1 ''/l'' (disk [] []) = Inr link \<and> isSymbolicLink link
           \<and> fs_stat ?h1 ''/l'' (disk [] []) = Inr directory"
    by (simp add: link_def)
  have b: "fs_lstat ?h2 ''/l'' (disk [] []) = Inr link \<and> isSymbolicLink link
           \<and> fs_stat ?h2 ''/l'' (disk [] []) = Inl (SysError ''ENOENT'')
           \<and> code (SysError ''ENOENT'') = Some ''ENOENT''"
    by (simp add: link_def)
  have c: "fs_lstat sim_host ''/f'' (disk [(''/f'', ''x'')] []) = Inr regular
           \<and> \<not> isSymbolicLink regular"
    by (simp add: sim_host_def sim_lstat_def disk_def regular_def)
  from a b c show ?thesis
    using SymlinkSupport_stat_follows_links [of ?h1 "''/l''" "disk [] []" link directory]
      SymlinkSupport_stat_follows_links [of ?h2 "''/l''" "disk [] []" link _ "SysError ''ENOENT''"]
      SymlinkSupport_stat_follows_links [of sim_host "''/f''" "disk [(''/f'', ''x'')] []" regular]
    by blast
qed

text \<open>
  C10. \<^verbatim>\<open>fileExists\<close> and \<^verbatim>\<open>dirExists\<close> always return a boolean. It is \<open>False\<close> when
  \<^verbatim>\<open>SymlinkSupport.stat\<close> throws (in particular when both \<^verbatim>\<open>lstat\<close> and \<^verbatim>\<open>stat\<close> fail) and
  for a dangling link. It is \<open>True\<close> only when one of the stat primitives has answered,
  for the path or for the target read from the link, with the stats of a regular file
  (of a directory), and the link is not dangling.
\<close>

theorem exists_never_throws:
  "(\<exists>b. fileExists h p w = Inr b) \<and> (\<exists>b. dirExists h p w = Inr b)
 \<and> (SymlinkSupport_stat h p w = Inl e \<longrightarrow>
      fileExists h p w = Inr False \<and> dirExists h p w = Inr False)
 \<and> (fs_lstat h p w = Inl e \<and> fs_stat h p w = Inl e' \<longrightarrow>
      fileExists h p w = Inr False \<and> dirExists h p w = Inr False)
 \<and> (fs_lstat h p w = Inr l \<and> isSymbolicLink l \<and> fs_stat h p w = Inl e
      \<and> code e = Some ''ENOENT'' \<longrightarrow>
      fileExists h p w = Inr False \<and> dirExists h p w = Inr False)
 \<and> (fileExists h p w = Inr True \<longrightarrow>
      (\<exists>r. SymlinkSupport_stat h p w = Inr r \<and> isFile (stat r) \<and> symbolicLink r \<noteq> Some True)
      \<and> (\<exists>s. isFile s \<and> (fs_lstat h p w = Inr s \<or> fs_stat h p w = Inr s
                \<or> (\<exists>t. fs_readlink h p w = Inr t \<and> fs_stat h t w = Inr s))))
 \<and> (dirExists h p w = Inr True \<longrightarrow>
      (\<exists>r. SymlinkSupport_stat h p w = Inr r \<and> isDirectory (stat r)
            \<and> symbolicLink r \<noteq> Some True)
      \<and> (\<exists>s. isDirectory s \<and> (fs_lstat h p w = Inr s \<or> fs_stat h p w = Inr s
                \<or> (\<exists>t. fs_readlink h p w = Inr t \<and> fs_stat h t w = Inr s))))"
  by (auto simp: fileExists_def dirExists_def SymlinkSupport_stat_def statTarget_def
           split: sum.splits option.splits if_splits)

theorem exists_never_throws_witness:
  "fileExists sim_host ''/none'' (disk [] []) = Inr False
 \<and> dirExists sim_host ''/none'' (disk [] []) = Inr False
 \<and> fileExists
      (sim_host\<lparr>fs_lstat := (\<lambda>p w. Inr link), fs_stat := (\<lambda>p w. Inl (SysError ''ENOENT''))\<rparr>)
      ''/l'' (disk [] []) = Inr False
 \<and> fileExists sim_host ''/f'' (disk [(''/f'', ''x'')] []) = Inr True
 \<and> (\<exists>r. SymlinkSupport_stat sim_host ''/f'' (disk [(''/f'', ''x'')] []) = Inr r
         \<and> isFile (stat r) \<and> symbolicLink r \<noteq> Some True)"
proof -
  let ?h2 = "sim_host\<lparr>fs_lstat := (\<lambda>p w. Inr link),
                       fs_stat := (\<lambda>p w. Inl (SysError ''ENOENT''))\<rparr>"
  let ?d = "disk [(''/f'', ''x'')] []"
  have a: "fs_lstat sim_host ''/none'' (disk [] []) = Inl (SysError ''ENOENT'')
           \<and> fs_stat sim_host ''/none'' (disk [] []) = Inl (SysError ''ENOENT'')"
    by (simp add: sim_defs)
  have b: "fs_lstat ?h2 ''/l'' (disk [] []) = Inr link \<and> isSymbolicLink link
           \<and> fs_stat ?h2 ''/l'' (disk [] []) = Inl (SysError ''ENOENT'')
           \<and> code (SysError ''ENOENT'') = Some ''ENOENT''"
    by (simp add: link_def)
  have c: "fileExists sim_host ''/f'' ?d = Inr True"
    by (simp add: fileExists_def SymlinkSupport_stat_def sim_defs regular_def)
  have 1: "fileExists sim_host ''/none'' (disk [] []) = Inr False
           \<and> dirExists sim_host ''/none'' (disk [] []) = Inr False"
    using a exists_never_throws [of sim_host "''/none''" "disk [] []" "SysError ''ENOENT''"
                                    "SysError ''ENOENT''"]
    by simp
  have 2: "fileExists ?h2 ''/l'' (disk [] []) = Inr False"
    using b exists_never_throws [of ?h2 "''/l''" "disk [] []" "SysError ''ENOENT''" _ link]
    by simp
  have 3: "\<exists>r. SymlinkSupport_stat sim_host ''/f'' ?d = Inr r
               \<and> isFile (stat r) \<and> symbolicLink r \<noteq> Some True"
    using c exists_never_throws [of sim_host "''/f''" ?d]
    by simp
  from 1 2 3 c show ?thesis
    by simp
qed

subsection \<open>Directory listings\<close>

text \<open>
  C5. On a Mac, \<^verbatim>\<open>readdir\<close> and \<^verbatim>\<open>readdirSync\<close> return \<^verbatim>\<open>normalizeNFC\<close> of each name that
  \<^verbatim>\<open>fs.readdir\<close> gave, and \<^verbatim>\<open>readdirWithFileTypes\<close> returns the entries with their names
  replaced in the same way; so every returned name is in normal form, a fixed point of
  \<^verbatim>\<open>normalizeNFC\<close>, given that normalizing twice is normalizing once. On any other
  platform the three functions return what the primitive returned.
\<close>

theorem readdir_normalizes_on_mac:
  "(isMacintosh h \<longrightarrow>
      (\<forall>raw. fs_readdir h p w = Inr raw \<longrightarrow>
           readdir h p w = Inr (map (normalizeNFC h) raw)
         \<and> readdirSync h p w = Inr (map (normalizeNFC h) raw))
    \<and> (\<forall>raw. fs_readdirTypes h p w = Inr raw \<longrightarrow>
           (\<exists>ents. readdirWithFileTypes h p w = Inr ents
              \<and> map name ents = map (normalizeNFC h) (map name raw)
              \<and> map isDir ents = map isDir raw))
    \<and> ((\<forall>s. normalizeNFC h (normalizeNFC h s) = normalizeNFC h s) \<longrightarrow>
         (\<forall>names. readdir h p w = Inr names \<or> readdirSync h p w = Inr names \<longrightarrow>
            (\<forall>n \<in> set names. normalizeNFC h n = n))
       \<and> (\<forall>ents. readdirWithFileTypes h p w = Inr ents \<longrightarrow>
            (\<forall>d \<in> set ents. normalizeNFC h (name d) = name d))))
 \<and> (\<not> isMacintosh h \<longrightarrow>
      readdir h p w = fs_readdir h p w
    \<and> readdirSync h p w = fs_readdir h p w
    \<and> readdirWithFileTypes h p w = fs_readdirTypes h p w)"
proof (intro conjI impI allI)
  fix raw
  assume "isMacintosh h" "fs_readdir h p w = Inr raw"
  then show "readdir h p w = Inr (map (normalizeNFC h) raw)"
    and "readdirSync h p w = Inr (map (normalizeNFC h) raw)"
    by (simp_all add: readdir_def readdirSync_def handleDirectoryChildren_def)
next
  fix raw
  assume "isMacintosh h" "fs_readdirTypes h p w = Inr raw"
  then show "\<exists>ents. readdirWithFileTypes h p w = Inr ents
              \<and> map name ents = map (normalizeNFC h) (map name raw)
              \<and> map isDir ents = map isDir raw"
    by (simp add: readdirWithFileTypes_def)
next
  fix names
  assume mac: "isMacintosh h"
    and idem: "\<forall>s. normalizeNFC h (normalizeNFC h s) = normalizeNFC h s"
    and r: "readdir h p w = Inr names \<or> readdirSync h p w = Inr names"
  from mac r obtain raw where "names = map (normalizeNFC h) raw"
    by (auto simp: readdir_def readdirSync_def handleDirectoryChildren_def split: sum.splits)
  with idem show "\<forall>n \<in> set names. normalizeNFC h n = n"
    by auto
next
  fix ents
  assume mac: "isMacintosh h"
    and idem: "\<forall>s. normalizeNFC h (normalizeNFC h s) = normalizeNFC h s"
    and r: "readdirWithFileTypes h p w = Inr ents"
  from mac r obtain raw
    where "ents = map (\<lambda>child. child\<lparr>name := normalizeNFC h (name child)\<rparr>) raw"
    by (auto simp: readdirWithFileTypes_def split: sum.splits)
  with idem show "\<forall>d \<in> set ents. normalizeNFC h (name d) = name d"
    by auto
next
  assume "\<not> isMacintosh h"
  then show "readdir h p w = fs_readdir h p w"
    and "readdirSync h p w = fs_readdir h p w"
    and "readdirWithFileTypes h p w = fs_readdirTypes h p w"
    by (simp_all add: readdir_def readdirSync_def readdirWithFileTypes_def
          handleDirectoryChildren_def split: sum.splits)
qed

theorem readdir_normalizes_on_mac_witness:
  "isMacintosh mac_host
 \<and> (\<forall>s. normalizeNFC mac_host (normalizeNFC mac_host s) = normalizeNFC mac_host s)
 \<and> fs_readdir mac_host ''/d'' (disk [] []) = Inr [''e`'', ''b'']
 \<and> readdir mac_host ''/d'' (disk [] []) = Inr [''E'', ''b'']
 \<and> normalizeNFC mac_host ''E'' = ''E''
 \<and> normalizeNFC mac_host ''b'' = ''b''
 \<and> \<not> isMacintosh sim_host
 \<and> readdir sim_host ''/d'' (disk [] []) = fs_readdir sim_host ''/d'' (disk [] [])"
proof -
  have m: "isMacintosh mac_host"
    and i: "\<forall>s. normalizeNFC mac_host (normalizeNFC mac_host s) = normalizeNFC mac_host s"
    and r: "fs_readdir mac_host ''/d'' (disk [] []) = Inr [''e`'', ''b'']"
    and n: "map (normalizeNFC mac_host) [''e`'', ''b''] = [''E'', ''b'']"
    by (simp_all add: mac_host_def compose_def)
  have s: "\<not> isMacintosh sim_host"
    by (simp add: sim_host_def)
  note mac = readdir_normalizes_on_mac [of mac_host "''/d''" "disk [] []", THEN conjunct1, THEN mp, OF m]
  note other = readdir_normalizes_on_mac [of sim_host "''/d''" "disk [] []", THEN conjunct2, THEN mp, OF s]
  have 1: "readdir mac_host ''/d'' (disk [] []) = Inr [''E'', ''b'']"
    using mac [THEN conjunct1, THEN spec, THEN mp, OF r, THEN conjunct1] by (simp only: n)
  have 2: "\<forall>n \<in> set [''E'', ''b'']. normalizeNFC mac_host n = n"
    using mac [THEN conjunct2, THEN conjunct2, THEN mp, OF i, THEN conjunct1, THEN spec, THEN mp,
               OF disjI1, OF 1] .
  have 3: "readdir sim_host ''/d'' (disk [] []) = fs_readdir sim_host ''/d'' (disk [] [])"
    using other [THEN conjunct1] .
  from 2 have 4: "normalizeNFC mac_host ''E'' = ''E''" and 5: "normalizeNFC mac_host ''b'' = ''b''"
    by simp_all
  show ?thesis
    using m i r 1 4 5 3 s by (intro conjI)
qed

subsection \<open>Writing a file\<close>

text \<open>
  C1, as the claim states it, fails: the write is done in place. With the default flag
  \<^verbatim>\<open>w\<close> the open truncates the file; when the write then fails, the call reports the
  error and the file holds neither its previous bytes nor the new ones.
\<close>

theorem writeFile_not_atomic_counterexample:
  "writeFile_run sim_host True ''/f'' ''new'' None (disk [(''/f'', ''old'')] [(''write'', ''EIO'')])
     = (Some (SysError ''EIO''), True,
        \<lparr>contents = [(''/f'', [])], stable = [(''/f'', ''old'')], handles = [],
         calls = [''open'', ''close''], faults = [(''write'', ''EIO'')]\<rparr>)"
  by (simp add: writeFile_run_def doWriteFileAndFlush_def ensureWriteOptions_def sim_defs)

text \<open>
  C1, amended. With flushing enabled, \<^verbatim>\<open>writeFile\<close> opens the path with the ensured flag
  and mode (\<^verbatim>\<open>w\<close> and \<^verbatim>\<open>0o666\<close> by default). If the open fails, the call fails with that
  error and the file system is the one the failed open left. If the write fails, the
  descriptor is closed and the call fails with the write error, the file being left as
  the open and the failed write left it. Otherwise \<^verbatim>\<open>fdatasync\<close> and \<^verbatim>\<open>close\<close> follow and
  the call settles with the result of \<^verbatim>\<open>close\<close>.
\<close>

theorem writeFile_steps:
  "(fs_open h p (ensured_flag (ensureWriteOptions options))
       (ensured_mode (ensureWriteOptions options)) w = (Inl e, w1) \<longrightarrow>
      writeFile_run h True p data options w = (Some e, True, w1))
 \<and> (fs_open h p (ensured_flag (ensureWriteOptions options))
       (ensured_mode (ensureWriteOptions options)) w = (Inr fd, w1) \<longrightarrow>
      (fs_writeFd h fd data w1 = (Some e, w2) \<longrightarrow>
         writeFile_run h True p data options w = (Some e, True, snd (fs_close h fd w2)))
    \<and> (fs_writeFd h fd data w1 = (None, w2) \<longrightarrow>
         fs_fdatasync h fd w2 = (syncError, w3) \<longrightarrow>
         fs_close h fd w3 = (closeError, w4) \<longrightarrow>
         writeFile_run h True p data options w = (closeError, syncError = None, w4)))
 \<and> ensureWriteOptions None = \<lparr>ensured_mode = 438, ensured_flag = ''w''\<rparr>"
  by (auto simp: writeFile_run_def doWriteFileAndFlush_def ensureWriteOptions_def
           split: prod.splits)

theorem writeFile_steps_witness:
  "writeFile_run sim_host True ''/f'' ''new'' None (disk [(''/f'', ''old'')] [(''open'', ''EACCES'')])
     = (Some (SysError ''EACCES''), True, disk [(''/f'', ''old'')] [(''open'', ''EACCES'')])
 \<and> writeFile_run sim_host True ''/f'' ''new'' None (disk [(''/f'', ''old'')] [])
     = (None, True,
        \<lparr>contents = [(''/f'', ''new'')], stable = [(''/f'', ''new'')], handles = [],
         calls = [''open'', ''write'', ''fdatasync'', ''close''], faults = []\<rparr>)"
proof -
  let ?bad = "disk [(''/f'', ''old'')] [(''open'', ''EACCES'')]"
  let ?ok = "disk [(''/f'', ''old'')] []"
  let ?w1 = "\<lparr>contents = [(''/f'', [])], stable = [(''/f'', ''old'')], handles = [(0, ''/f'')],
              calls = [''open''], faults = []\<rparr>"
  let ?w2 = "\<lparr>contents = [(''/f'', ''new'')], stable = [(''/f'', ''old'')],
              handles = [(0, ''/f'')], calls = [''open'', ''write''], faults = []\<rparr>"
  let ?w3 = "\<lparr>contents = [(''/f'', ''new'')], stable = [(''/f'', ''new'')],
              handles = [(0, ''/f'')], calls = [''open'', ''write'', ''fdatasync''],
              faults = []\<rparr>"
  let ?w4 = "\<lparr>contents = [(''/f'', ''new'')], stable = [(''/f'', ''new'')], handles = [],
              calls = [''open'', ''write'', ''fdatasync'', ''close''], faults = []\<rparr>"
  have o: "ensured_flag (ensureWriteOptions None) = ''w''"
    "ensured_mode (ensureWriteOptions None) = 438"
    by (simp_all add: ensureWriteOptions_def)
  have a: "fs_open sim_host ''/f'' ''w'' 438 ?bad = (Inl (SysError ''EACCES''), ?bad)"
    by (simp add: sim_defs)
  have b: "fs_open sim_host ''/f'' ''w'' 438 ?ok = (Inr 0, ?w1)"
    "fs_writeFd sim_host 0 ''new'' ?w1 = (None, ?w2)"
    "fs_fdatasync sim_host 0 ?w2 = (None, ?w3)"
    "fs_close sim_host 0 ?w3 = (None, ?w4)"
    by (simp_all add: sim_defs)
  have 1: "writeFile_run sim_host True ''/f'' ''new'' None ?bad
             = (Some (SysError ''EACCES''), True, ?bad)"
    using a writeFile_steps [where h = sim_host and p = "''/f''" and options = None and w = ?bad
                and e = "SysError ''EACCES''" and ?w1.0 = ?bad and data = "''new''"]
    by (simp add: o)
  have 2: "writeFile_run sim_host True ''/f'' ''new'' None ?ok = (None, True, ?w4)"
    using b writeFile_steps [where h = sim_host and p = "''/f''" and options = None and w = ?ok
                and fd = 0 and ?w1.0 = ?w1 and data = "''new''" and ?w2.0 = ?w2
                and syncError = None and ?w3.0 = ?w3 and closeError = None and ?w4.0 = ?w4]
    by (simp add: o)
  from 1 2 show ?thesis
    by (intro conjI)
qed

text \<open>
  C2, as the claim states it, fails: a call succeeds with nothing forced to stable
  storage when \<^verbatim>\<open>fdatasync\<close> fails, and when \<^verbatim>\<open>canFlush\<close> is already false no
  \<^verbatim>\<open>fdatasync\<close> is attempted.
\<close>

theorem write_unflushed_counterexample:
  "writeFile_run sim_host True ''/f'' ''new'' None (disk [(''/f'', ''old'')] [(''fdatasync'', ''EIO'')])
     = (None, False,
        \<lparr>contents = [(''/f'', ''new'')], stable = [(''/f'', ''old'')], handles = [],
         calls = [''open'', ''write'', ''close''], faults = [(''fdatasync'', ''EIO'')]\<rparr>)
 \<and> writeFileSync sim_host False ''/f'' ''new'' None (disk [(''/f'', ''old'')] [])
     = (None, False,
        \<lparr>contents = [(''/f'', ''new'')], stable = [(''/f'', ''old'')], handles = [],
         calls = [''writeFile''], faults = []\<rparr>)"
  by (simp add: writeFile_run_def doWriteFileAndFlush_def writeFileSync_def
        ensureWriteOptions_def sim_defs)

text \<open>
  C2, amended. A successful \<^verbatim>\<open>writeFile\<close> or \<^verbatim>\<open>writeFileSync\<close> that starts with
  \<^verbatim>\<open>canFlush\<close> true has called \<^verbatim>\<open>fdatasync\<close> on the descriptor it wrote, after the write
  and before the close that precedes completion; \<^verbatim>\<open>canFlush\<close> stays true exactly when
  that \<^verbatim>\<open>fdatasync\<close> succeeded. With \<^verbatim>\<open>canFlush\<close> false both functions are the plain
  \<^verbatim>\<open>fs.writeFile\<close> on the path.
\<close>

theorem write_flushes_when_it_can:
  "(writeFile_run h True p data options w = (None, canFlush', w') \<longrightarrow>
      (\<exists>fd w1 w2 syncError w3.
          fs_open h p (ensured_flag (ensureWriteOptions options))
            (ensured_mode (ensureWriteOptions options)) w = (Inr fd, w1)
        \<and> fs_writeFd h fd data w1 = (None, w2)
        \<and> fs_fdatasync h fd w2 = (syncError, w3)
        \<and> fs_close h fd w3 = (None, w')
        \<and> canFlush' = (syncError = None)))
 \<and> (writeFileSync h True p data options w = (None, canFlush', w') \<longrightarrow>
      (\<exists>fd w1 w2 syncError w3.
          fs_open h p (ensured_flag (ensureWriteOptions options))
            (ensured_mode (ensureWriteOptions options)) w = (Inr fd, w1)
        \<and> fs_writeFd h fd data w1 = (None, w2)
        \<and> fs_fdatasync h fd w2 = (syncError, w3)
        \<and> fs_close h fd w3 = (None, w')
        \<and> canFlush' = (syncError = None)))
 \<and> (fs_writePath h p data (ensured_mode (ensureWriteOptions options))
        (ensured_flag (ensureWriteOptions options)) w = (r, w1) \<longrightarrow>
      writeFile_run h False p data options w = (r, False, w1)
    \<and> writeFileSync h False p data options w = (r, False, w1))"
  by (auto simp: writeFile_run_def doWriteFileAndFlush_def writeFileSync_def Let_def
           split: prod.splits sum.splits option.splits if_splits)

theorem write_flushes_when_it_can_witness:
  "writeFile_run sim_host True ''/f'' ''new'' None (disk [(''/f'', ''old'')] [])
     = (None, True,
        \<lparr>contents = [(''/f'', ''new'')], stable = [(''/f'', ''new'')], handles = [],
         calls = [''open'', ''write'', ''fdatasync'', ''close''], faults = []\<rparr>)
 \<and> (\<exists>fd w1 w2 syncError w3.
        fs_open sim_host ''/f'' (ensured_flag (ensureWriteOptions None))
          (ensured_mode (ensureWriteOptions None)) (disk [(''/f'', ''old'')] []) = (Inr fd, w1)
      \<and> fs_writeFd sim_host fd ''new'' w1 = (None, w2)
      \<and> fs_fdatasync sim_host fd w2 = (syncError, w3)
      \<and> fs_close sim_host fd w3
          = (None, \<lparr>contents = [(''/f'', ''new'')], stable = [(''/f'', ''new'')], handles = [],
                    calls = [''open'', ''write'', ''fdatasync'', ''close''], faults = []\<rparr>)
      \<and> True = (syncError = None))
 \<and> writeFileSync sim_host True ''/f'' ''new'' None
      (disk [(''/f'', ''old'')] [(''fdatasync'', ''EIO'')])
     = (None, False,
        \<lparr>contents = [(''/f'', ''new'')], stable = [(''/f'', ''old'')], handles = [],
         calls = [''open'', ''write'', ''close''], faults = [(''fdatasync'', ''EIO'')]\<rparr>)
 \<and> (\<exists>fd w1 w2 syncError w3.
        fs_open sim_host ''/f'' (ensured_flag (ensureWriteOptions None))
          (ensured_mode (ensureWriteOptions None))
          (disk [(''/f'', ''old'')] [(''fdatasync'', ''EIO'')]) = (Inr fd, w1)
      \<and> fs_writeFd sim_host fd ''new'' w1 = (None, w2)
      \<and> fs_fdatasync sim_host fd w2 = (syncError, w3)
      \<and> fs_close sim_host fd w3
          = (None, \<lparr>contents = [(''/f'', ''new'')], stable = [(''/f'', ''old'')], handles = [],
                    calls = [''open'', ''write'', ''close''],
                    faults = [(''fdatasync'', ''EIO'')]\<rparr>)
      \<and> False = (syncError = None))
 \<and> writeFile_run sim_host False ''/f'' ''new'' None (disk [(''/f'', ''old'')] [])
     = (None, False,
        \<lparr>contents = [(''/f'', ''new'')], stable = [(''/f'', ''old'')], handles = [],
         calls = [''writeFile''], faults = []\<rparr>)"
proof -
  let ?ok = "disk [(''/f'', ''old'')] []"
  let ?nosync = "disk [(''/f'', ''old'')] [(''fdatasync'', ''EIO'')]"
  let ?w4 = "\<lparr>contents = [(''/f'', ''new'')], stable = [(''/f'', ''new'')], handles = [],
              calls = [''open'', ''write'', ''fdatasync'', ''close''], faults = []\<rparr>"
  let ?v4 = "\<lparr>contents = [(''/f'', ''new'')], stable = [(''/f'', ''old'')], handles = [],
              calls = [''open'', ''write'', ''close''], faults = [(''fdatasync'', ''EIO'')]\<rparr>"
  let ?u1 = "\<lparr>contents = [(''/f'', ''new'')], stable = [(''/f'', ''old'')], handles = [],
              calls = [''writeFile''], faults = []\<rparr>"
  have a: "writeFile_run sim_host True ''/f'' ''new'' None ?ok = (None, True, ?w4)"
    by (simp add: writeFile_run_def doWriteFileAndFlush_def ensureWriteOptions_def sim_defs)
  have b: "writeFileSync sim_host True ''/f'' ''new'' None ?nosync = (None, False, ?v4)"
    by (simp add: writeFileSync_def ensureWriteOptions_def sim_defs)
  have c: "fs_writePath sim_host ''/f'' ''new'' (ensured_mode (ensureWriteOptions None))
             (ensured_flag (ensureWriteOptions None)) ?ok = (None, ?u1)"
    by (simp add: ensureWriteOptions_def sim_defs)
  note 1 = write_flushes_when_it_can [THEN conjunct1, THEN mp, OF a]
  note 2 = write_flushes_when_it_can [THEN conjunct2, THEN conjunct1, THEN mp, OF b]
  note 3 = write_flushes_when_it_can [THEN conjunct2, THEN conjunct2, THEN mp, OF c,
             THEN conjunct1]
  from a 1 b 2 3 show ?thesis
    by (intro conjI)
qed

subsection \<open>Moving\<close>

text \<open>
  C6, as the claim states it, fails when source and target are the same string:
  \<^verbatim>\<open>move\<close> returns at once. It calls no rename and does not update the modification
  time, although both would have gone through.
\<close>

theorem move_same_path_counterexample:
  "move 1 sim_host ''/f'' ''/f'' (disk [(''/f'', ''old'')] [])
     = Some \<lparr>failure = None, background = [], world = disk [(''/f'', ''old'')] []\<rparr>
   \<and> calls (disk [(''/f'', ''old'')] []) = []
   \<and> fs_rename sim_host ''/f'' ''/f'' (disk [(''/f'', ''old'')] [])
       = (None, \<lparr>contents = [(''/f'', ''old'')], stable = [(''/f'', ''old'')], handles = [],
                 calls = [''rename''], faults = []\<rparr>)
   \<and> calls (updateMtime sim_host ''/f''
               (snd (fs_rename sim_host ''/f'' ''/f'' (disk [(''/f'', ''old'')] []))))
       = [''rename'', ''open'', ''utimes'', ''close'']"
  by (simp add: move_def settled_def updateMtime_def regular_def sim_defs)

text \<open>
  C6, amended. When source and target are the same string \<^verbatim>\<open>move\<close> does nothing.
  Otherwise it renames source to target and, after a successful rename, updates the
  modification time of the target (only when the target is neither a directory nor a
  link). If the rename fails, then exactly when the error code is \<^verbatim>\<open>EXDEV\<close> and the
  two paths differ beyond letter case, or the source ends with a dot, it copies source
  to target, deletes source with \<^verbatim>\<open>rimraf\<close> in \<^verbatim>\<open>MOVE\<close> mode and updates the modification
  time; any other rename error is thrown to the caller.
\<close>

theorem move_renames_or_falls_back:
  "(source = target \<longrightarrow>
      move n h source target w = Some \<lparr>failure = None, background = [], world = w\<rparr>)
 \<and> (source \<noteq> target \<longrightarrow>
      (fs_rename h source target w = (None, w1) \<longrightarrow>
         move n h source target w
           = Some \<lparr>failure = None, background = [], world = updateMtime h target w1\<rparr>)
    \<and> (fs_rename h source target w = (Some err, w1) \<longrightarrow>
         (if (toLowerCase h source \<noteq> toLowerCase h target \<and> code err = Some ''EXDEV'')
             \<or> endsWith source ''.''
          then (copy n h source target None w1 = None \<longrightarrow> move n h source target w = None)
             \<and> (copy n h source target None w1 = Some (Some e, hs, w2) \<longrightarrow>
                  move n h source target w
                    = Some \<lparr>failure = Some e, background = [], world = w2\<rparr>)
             \<and> (copy n h source target None w1 = Some (None, hs, w2) \<longrightarrow>
                  move n h source target w
                    = Some (if failure (rimraf h source MOVE w2) \<noteq> None
                            then rimraf h source MOVE w2
                            else (rimraf h source MOVE w2)
                                   \<lparr>world := updateMtime h target
                                               (world (rimraf h source MOVE w2))\<rparr>))
          else move n h source target w
                 = Some \<lparr>failure = Some err, background = [], world = w1\<rparr>)))
 \<and> (fs_lstat h target w1 = Inl e \<longrightarrow> updateMtime h target w1 = w1)
 \<and> (fs_lstat h target w1 = Inr st \<longrightarrow>
      updateMtime h target w1
        = (if isDirectory st \<or> isSymbolicLink st then w1
           else case fs_open h target ''a'' 438 w1 of
                  (Inl e, w2) \<Rightarrow> w2
                | (Inr fh, w2) \<Rightarrow> snd (fs_close h fh (snd (fs_utimes h fh (atime st) w2)))))"
  by (auto simp: move_def settled_def updateMtime_def Let_def
           split: prod.splits sum.splits option.splits)

theorem move_renames_or_falls_back_witness:
  "move (Suc 0) sim_host ''/f'' ''/f'' (disk [(''/f'', ''old'')] [])
     = Some \<lparr>failure = None, background = [], world = disk [(''/f'', ''old'')] []\<rparr>
 \<and> move (Suc 0) sim_host ''/f'' ''/g'' (disk [(''/f'', ''old'')] [])
     = Some \<lparr>failure = None, background = [],
             world = \<lparr>contents = [(''/g'', ''old'')], stable = [(''/f'', ''old'')], handles = [],
                      calls = [''rename'', ''open'', ''utimes'', ''close''], faults = []\<rparr>\<rparr>
 \<and> move (Suc 0) sim_host ''/f'' ''/g'' (disk [(''/f'', ''old'')] [(''rename'', ''EXDEV'')])
     = Some \<lparr>failure = None, background = [],
             world = \<lparr>contents = [(''/g'', ''old'')], stable = [(''/f'', ''old'')], handles = [],
                      calls = [''pipe'', ''chmod'', ''rmdir'', ''open'', ''utimes'', ''close''],
                      faults = [(''rename'', ''EXDEV'')]\<rparr>\<rparr>
 \<and> move (Suc 0) sim_host ''/f'' ''/g'' (disk [(''/f'', ''old'')] [(''rename'', ''EPERM'')])
     = Some \<lparr>failure = Some (SysError ''EPERM''), background = [],
             world = disk [(''/f'', ''old'')] [(''rename'', ''EPERM'')]\<rparr>"
proof -
  let ?ok = "disk [(''/f'', ''old'')] []"
  let ?xdev = "disk [(''/f'', ''old'')] [(''rename'', ''EXDEV'')]"
  let ?perm = "disk [(''/f'', ''old'')] [(''rename'', ''EPERM'')]"
  let ?r1 = "\<lparr>contents = [(''/g'', ''old'')], stable = [(''/f'', ''old'')], handles = [],
              calls = [''rename''], faults = []\<rparr>"
  let ?c2 = "\<lparr>contents = [(''/g'', ''old''), (''/f'', ''old'')], stable = [(''/f'', ''old'')],
              handles = [], calls = [''pipe'', ''chmod''], faults = [(''rename'', ''EXDEV'')]\<rparr>"
  have ne: "''/f'' \<noteq> ''/g''"
    by simp
  have a: "fs_rename sim_host ''/f'' ''/g'' ?ok = (None, ?r1)"
    by (simp add: sim_defs)
  have a': "updateMtime sim_host ''/g'' ?r1
              = \<lparr>contents = [(''/g'', ''old'')], stable = [(''/f'', ''old'')], handles = [],
                 calls = [''rename'', ''open'', ''utimes'', ''close''], faults = []\<rparr>"
    by (simp add: updateMtime_def sim_defs regular_def)
  have b: "fs_rename sim_host ''/f'' ''/g'' ?xdev = (Some (SysError ''EXDEV''), ?xdev)"
    by (simp add: sim_defs)
  have b1: "(toLowerCase sim_host ''/f'' \<noteq> toLowerCase sim_host ''/g''
              \<and> code (SysError ''EXDEV'') = Some ''EXDEV'') \<or> endsWith ''/f'' ''.''"
    by (simp add: sim_host_def)
  have b2: "copy (Suc 0) sim_host ''/f'' ''/g'' None ?xdev = Some (None, {''/f''}, ?c2)"
    by (simp add: SymlinkSupport_stat_def doCopyFile_def COPY_MODE_MASK_def sim_defs regular_def)
  have b3: "rimraf sim_host ''/f'' MOVE ?c2
              = \<lparr>failure = None, background = [],
                 world = \<lparr>contents = [(''/g'', ''old'')], stable = [(''/f'', ''old'')],
                          handles = [], calls = [''pipe'', ''chmod'', ''rmdir''],
                          faults = [(''rename'', ''EXDEV'')]\<rparr>\<rparr>"
    by (simp add: rimraf_def rimrafMove_def rimrafUnlink_def settled_def sim_defs)
  have b4: "updateMtime sim_host ''/g''
              \<lparr>contents = [(''/g'', ''old'')], stable = [(''/f'', ''old'')],
               handles = [], calls = [''pipe'', ''chmod'', ''rmdir''],
               faults = [(''rename'', ''EXDEV'')]\<rparr>
            = \<lparr>contents = [(''/g'', ''old'')], stable = [(''/f'', ''old'')], handles = [],
               calls = [''pipe'', ''chmod'', ''rmdir'', ''open'', ''utimes'', ''close''],
               faults = [(''rename'', ''EXDEV'')]\<rparr>"
    by (simp add: updateMtime_def sim_defs regular_def)
  have c: "fs_rename sim_host ''/f'' ''/g'' ?perm = (Some (SysError ''EPERM''), ?perm)"
    by (simp add: sim_defs)
  have c1: "\<not> ((toLowerCase sim_host ''/f'' \<noteq> toLowerCase sim_host ''/g''
              \<and> code (SysError ''EPERM'') = Some ''EXDEV'') \<or> endsWith ''/f'' ''.'')"
    by (simp add: sim_host_def endsWith_def)
  have 0: "move (Suc 0) sim_host ''/f'' ''/f'' ?ok
             = Some \<lparr>failure = None, background = [], world = ?ok\<rparr>"
    using move_renames_or_falls_back [of "''/f''" "''/f''" "Suc 0" sim_host ?ok, THEN conjunct1]
    by simp
  note diff = move_renames_or_falls_back [where source = "''/f''" and target = "''/g''"
                and n = "Suc 0" and h = sim_host, THEN conjunct2, THEN conjunct1, THEN mp, OF ne]
  have 1: "move (Suc 0) sim_host ''/f'' ''/g'' ?ok
             = Some \<lparr>failure = None, background = [], world = updateMtime sim_host ''/g'' ?r1\<rparr>"
    using diff [THEN conjunct1, THEN mp, OF a] .
  have 2: "move (Suc 0) sim_host ''/f'' ''/g'' ?xdev
             = Some (if failure (rimraf sim_host ''/f'' MOVE ?c2) \<noteq> None
                     then rimraf sim_host ''/f'' MOVE ?c2
                     else (rimraf sim_host ''/f'' MOVE ?c2)
                            \<lparr>world := updateMtime sim_host ''/g''
                                        (world (rimraf sim_host ''/f'' MOVE ?c2))\<rparr>)"
    using diff [THEN conjunct2, THEN mp, OF b] b1 b2
    by simp
  have 3: "move (Suc 0) sim_host ''/f'' ''/g'' ?perm
             = Some \<lparr>failure = Some (SysError ''EPERM''), background = [], world = ?perm\<rparr>"
    using diff [THEN conjunct2, THEN mp, OF c] c1
    by simp
  from 0 1 2 3 show ?thesis
    by (simp add: a' b3 b4)
qed

subsection \<open>The write queues\<close>

text \<open>
  The effect of one event on the writes of a key.
\<close>

lemma run_snoc: "run h s (es @ [e]) = step h (run h s es) e"
  by (induction es arbitrary: s) simp_all

lemma submitted_snoc:
  "submitted h k (es @ [e])
     = submitted h k es @ (case e of Call p t \<Rightarrow> if toQueueKey h p = k then [t] else []
                                   | Settle q \<Rightarrow> [])"
  by (simp add: submitted_def)

lemma pending_writeFile:
  "pending (writeFile h p t s) k
     = (if toQueueKey h p = k then pending s k @ [t] else pending s k)"
  by (simp add: writeFile_def ensureWriteFileQueue_def pending_def Queue_queue_def Queue_new_def
        Let_def split: option.splits)

lemma startedOf_writeFile:
  "startedOf (writeFile h p t s) k
     = (if toQueueKey h p = k \<and> pending s k = [] then startedOf s k @ [t] else startedOf s k)"
  by (simp add: writeFile_def ensureWriteFileQueue_def pending_def startedOf_def Queue_new_def
        Let_def split: option.splits)

lemma finishedOf_writeFile: "finishedOf (writeFile h p t s) k = finishedOf s k"
  by (simp add: writeFile_def ensureWriteFileQueue_def finishedOf_def Let_def
        split: option.splits)

lemma pending_settle:
  "pending (settle q s) k = (if q = k then tl (pending s k) else pending s k)"
  by (simp add: settle_def pending_def split: option.splits list.splits)

lemma startedOf_settle:
  "startedOf (settle q s) k
     = (if q = k then startedOf s k @ take 1 (tl (pending s k)) else startedOf s k)"
  by (simp add: settle_def pending_def startedOf_def split: option.splits list.splits)

lemma finishedOf_settle:
  "finishedOf (settle q s) k
     = (if q = k then finishedOf s k @ take 1 (pending s k) else finishedOf s k)"
  by (simp add: settle_def pending_def finishedOf_def split: option.splits list.splits)

lemmas queue_step = pending_writeFile startedOf_writeFile finishedOf_writeFile
  pending_settle startedOf_settle finishedOf_settle

lemma take1_tl: "take (Suc 0) xs @ tl xs = xs"
  by (cases xs) simp_all

text \<open>
  Whatever calls and completions have happened, the writes handed over for a key are
  the settled ones followed by the waiting ones, in the order of the calls, and the
  started ones are the settled ones and at most one more, the oldest not settled.
\<close>

lemma fifo_invariant:
  "submitted h k es = finishedOf (run h no_writes es) k @ pending (run h no_writes es) k
 \<and> startedOf (run h no_writes es) k
     = finishedOf (run h no_writes es) k @ take 1 (pending (run h no_writes es) k)"
proof (induction es rule: rev_induct)
  case Nil
  show ?case
    by (simp add: submitted_def no_writes_def finishedOf_def pending_def startedOf_def)
next
  case (snoc e es)
  let ?s = "run h no_writes es"
  from snoc have sub: "submitted h k es = finishedOf ?s k @ pending ?s k"
    and sta: "startedOf ?s k = finishedOf ?s k @ take 1 (pending ?s k)"
    by simp_all
  show ?case
  proof (cases e)
    case (Call p t)
    then show ?thesis
      using sub sta by (simp add: run_snoc submitted_snoc queue_step Suc_le_eq)
  next
    case (Settle q)
    then show ?thesis
      using sub sta by (simp add: run_snoc submitted_snoc queue_step take1_tl)
  qed
qed

text \<open>
  An event of another key leaves the writes of a key as they are, and an event of the
  key acts on them alone.
\<close>

lemma view_step_other: "keyOf h e \<noteq> k \<Longrightarrow> view (step h s e) k = view s k"
  by (cases e) (auto simp: view_def queue_step)

lemma view_step_cong: "view s k = view s' k \<Longrightarrow> view (step h s e) k = view (step h s' e) k"
  by (cases e) (auto simp: view_def queue_step)

lemma view_filter:
  "view (run h s es) k = view (run h s (filter (\<lambda>e. keyOf h e = k) es)) k"
proof (induction es rule: rev_induct)
  case Nil
  show ?case by simp
next
  case (snoc e es)
  show ?case
  proof (cases "keyOf h e = k")
    case True
    then show ?thesis
      using view_step_cong [OF snoc, of h e] by (simp add: run_snoc)
  next
    case False
    then show ?thesis
      using snoc by (simp add: run_snoc view_step_other)
  qed
qed

text \<open>
  C3. Two calls of \<^verbatim>\<open>writeFile\<close> share a queue exactly when their paths are equal, after
  lowercasing on Windows and macOS. After any sequence of calls and completions, for
  every key: the writes of the key settle in the order they were handed over, the rest
  waiting in that order; every started write but the running one (the oldest not settled)
  has settled, so they run strictly one after another; and the writes of the key are
  where they would be had the calls and completions of all other keys never happened.
\<close>

theorem writeFile_queues_serialize:
  "(toQueueKey h p = toQueueKey h p'
      \<longleftrightarrow> (if isWindows h \<or> isMacintosh h then toLowerCase h p = toLowerCase h p' else p = p'))
 \<and> submitted h k es = finishedOf (run h no_writes es) k @ pending (run h no_writes es) k
 \<and> startedOf (run h no_writes es) k
     = finishedOf (run h no_writes es) k @ Queue_running (pending (run h no_writes es) k)
 \<and> view (run h no_writes es) k
     = view (run h no_writes (filter (\<lambda>e. keyOf h e = k) es)) k"
proof (intro conjI)
  show "toQueueKey h p = toQueueKey h p'
      \<longleftrightarrow> (if isWindows h \<or> isMacintosh h then toLowerCase h p = toLowerCase h p' else p = p')"
    by (simp add: toQueueKey_def)
  show "submitted h k es = finishedOf (run h no_writes es) k @ pending (run h no_writes es) k"
    using fifo_invariant [of h k es] by simp
  show "startedOf (run h no_writes es) k
     = finishedOf (run h no_writes es) k @ Queue_running (pending (run h no_writes es) k)"
    using fifo_invariant [of h k es] by (simp add: Queue_running_def)
  show "view (run h no_writes es) k
     = view (run h no_writes (filter (\<lambda>e. keyOf h e = k) es)) k"
    by (rule view_filter)
qed

lemmas queue_defs = writeFile_def settle_def ensureWriteFileQueue_def toQueueKey_def
  Queue_new_def Queue_queue_def Queue_running_def no_writes_def pending_def startedOf_def
  finishedOf_def view_def Let_def

theorem writeFile_queues_serialize_witness:
  "toQueueKey win_host ''/A'' = toQueueKey win_host ''/a''
 \<and> submitted sim_host ''/a'' [Call ''/a'' (1::nat), Call ''/a'' 2, Call ''/b'' 3, Settle ''/a'']
     = [1, 2]
 \<and> finishedOf (run sim_host no_writes [Call ''/a'' (1::nat), Call ''/a'' 2, Call ''/b'' 3, Settle ''/a''])
      ''/a'' = [1]
 \<and> pending (run sim_host no_writes [Call ''/a'' (1::nat), Call ''/a'' 2, Call ''/b'' 3, Settle ''/a''])
      ''/a'' = [2]
 \<and> startedOf (run sim_host no_writes [Call ''/a'' (1::nat), Call ''/a'' 2, Call ''/b'' 3, Settle ''/a''])
      ''/a'' = [1, 2]
 \<and> view (run sim_host no_writes [Call ''/a'' (1::nat), Call ''/a'' 2, Call ''/b'' 3, Settle ''/a''])
      ''/b'' = ([3], [3], [])"
proof -
  let ?es = "[Call ''/a'' (1::nat), Call ''/a'' 2, Call ''/b'' 3, Settle ''/a'']"
  have low: "toLowerCase win_host ''/A'' = toLowerCase win_host ''/a''"
    and win: "isWindows win_host"
    by (simp_all add: win_host_def)
  have f: "finishedOf (run sim_host no_writes ?es) ''/a'' = [1]"
    and p: "pending (run sim_host no_writes ?es) ''/a'' = [2]"
    by (simp_all add: queue_defs sim_host_def)
  have only_b: "filter (\<lambda>e. keyOf sim_host e = ''/b'') ?es = [Call ''/b'' 3]"
    by (simp add: toQueueKey_def sim_host_def)
  have b: "view (run sim_host no_writes [Call ''/b'' (3::nat)]) ''/b'' = ([3], [3], [])"
    by (simp add: queue_defs sim_host_def)
  note a = writeFile_queues_serialize [of sim_host _ _ "''/a''" ?es]
  have 1: "toQueueKey win_host ''/A'' = toQueueKey win_host ''/a''"
    using writeFile_queues_serialize [of win_host "''/A''" "''/a''", THEN conjunct1] win low
    by simp
  have 2: "submitted sim_host ''/a'' ?es = [1, 2]"
    using a [THEN conjunct2, THEN conjunct1] by (simp only: f p append.simps)
  have "startedOf (run sim_host no_writes ?es) ''/a'' = [1] @ Queue_running [2]"
    using a [THEN conjunct2, THEN conjunct2, THEN conjunct1] by (simp only: f p)
  then have 3: "startedOf (run sim_host no_writes ?es) ''/a'' = [1, 2]"
    by (simp add: Queue_running_def)
  have 4: "view (run sim_host no_writes ?es) ''/b'' = ([3], [3], [])"
    using writeFile_queues_serialize [of sim_host _ _ "''/b''" ?es, THEN conjunct2,
            THEN conjunct2, THEN conjunct2]
    by (simp only: only_b b)
  from 1 2 f p 3 4 show ?thesis
    by (intro conjI)
qed

subsection \<open>Copying\<close>





















end
